theory Spec2Isabelle
  imports Main "HOL-Library.Word"
begin

section \<open>The HTTP request and response layer (chromeos/http/http_request.cc)\<close>

text \<open>
  \<^verbatim>\<open>Request\<close> and \<^verbatim>\<open>Response\<close> talk to a pluggable transport through the virtual
  interfaces \<^verbatim>\<open>Transport\<close> and \<^verbatim>\<open>Connection\<close>. Neither interface has a body in
  this repository's sources, so the model takes their methods, together with the helpers and
  constants of other files that the request code calls, as the fields of one environment
  record. A transport is a value of type \<open>'t\<close>, the state of a connection a value of type
  \<open>'c\<close>, and the caller's \<^verbatim>\<open>ErrorPtr*\<close> argument (a null pointer included) a value of
  type \<open>'e\<close>. A method that may change the connection returns its new state; a method
  that may report an error returns the new error value.

  The member names of the C++ classes end in an underscore, which an Isabelle name may not;
  the record fields drop it. \<^verbatim>\<open>Response::connection_\<close> is the field
  \<open>response_connection\<close>, since \<open>connection\<close> is taken by the request.
\<close>

type_synonym byte = "8 word"
type_synonym HeaderList = "(string \<times> string) list"

record ('t, 'c, 'e) http_env =
  CreateConnection ::
    "'t \<Rightarrow> string \<Rightarrow> string \<Rightarrow> HeaderList \<Rightarrow> string \<Rightarrow> string \<Rightarrow> 'e \<Rightarrow> 'c option \<times> 'e"
  FinishRequest :: "'c \<Rightarrow> 'e \<Rightarrow> bool \<times> 'c \<times> 'e"
  WriteRequestData :: "'c \<Rightarrow> byte list \<Rightarrow> 'e \<Rightarrow> bool \<times> 'c \<times> 'e"
  ReadResponseData :: "'c \<Rightarrow> nat \<Rightarrow> bool \<times> byte list \<times> 'c"
  GetResponseStatusCode :: "'c \<Rightarrow> int"
  Error_AddTo :: "'e \<Rightarrow> string \<Rightarrow> string \<Rightarrow> string \<Rightarrow> 'e"
  kErrorDomain :: string
  range_value_omitted :: "64 word"
  ToString :: "64 word \<Rightarrow> string"
  Join :: "char \<Rightarrow> string list \<Rightarrow> string"
  MapToVector :: "(string \<rightharpoonup> string) \<Rightarrow> HeaderList"

text \<open>
  \<open>ReadResponseData env c size\<close> stands for
  \<^verbatim>\<open>connection_->ReadResponseData(buffer, size, &read, nullptr)\<close>: the flag it returns,
  the bytes it left in the buffer (\<^verbatim>\<open>read\<close> is their number) and the connection
  afterwards. \<open>Error_AddTo env e domain code message\<close> stands for
  \<^verbatim>\<open>chromeos::Error::AddTo(error, FROM_HERE, domain, code, message)\<close>; the source
  location is debugging data and is left out.
\<close>

record ('t, 'c) Request =
  transport :: "'t option"
  connection :: "'c option"
  request_url :: string
  "method" :: string
  referer :: string
  user_agent :: string
  accept :: string
  content_type :: string
  headers :: "string \<rightharpoonup> string"
  ranges :: "(64 word \<times> 64 word) list"

record 'c Response =
  response_connection :: "'c option"
  response_data :: "byte list"

text \<open>Dereferencing a null \<^verbatim>\<open>connection_\<close> is the one way these functions can fault.\<close>

datatype fault = NullDereference

definition request_type_kGet :: string where
  "request_type_kGet = ''GET''"

definition request_type_kHead :: string where
  "request_type_kHead = ''HEAD''"

definition request_header_kRange :: string where
  "request_header_kRange = ''Range''"

definition request_header_kAccept :: string where
  "request_header_kAccept = ''Accept''"

definition request_header_kContentType :: string where
  "request_header_kContentType = ''Content-Type''"

text \<open>
  Modelled from the spec: the enumerators \<^verbatim>\<open>status_code::Continue\<close> and
  \<^verbatim>\<open>status_code::BadRequest\<close> are declared in chromeos/http/http_request.h, which is
  not among the sources. They are given the HTTP status numbers 100 and 400 that the
  property about \<^verbatim>\<open>Response::IsSuccessful\<close> names.
\<close>

definition status_code_Continue :: int where
  "status_code_Continue = 100"

definition status_code_BadRequest :: int where
  "status_code_BadRequest = 400"

definition GetAccept :: "('t, 'c) Request \<Rightarrow> string" where
  "GetAccept req = accept req"

text \<open>The body of the loop over \<^verbatim>\<open>ranges_\<close> in \<^verbatim>\<open>SendRequestIfNeeded\<close>.\<close>

definition range_text :: "('t, 'c, 'e) http_env \<Rightarrow> 64 word \<times> 64 word \<Rightarrow> string" where
  "range_text env p =
     (if fst p \<noteq> range_value_omitted env then ToString env (fst p) else [])
       @ ''-''
       @ (if snd p \<noteq> range_value_omitted env then ToString env (snd p) else [])"

definition range_list :: "('t, 'c, 'e) http_env \<Rightarrow> ('t, 'c) Request \<Rightarrow> string list" where
  "range_list env req =
     (if method req \<noteq> request_type_kHead
      then map (range_text env)
             (filter (\<lambda>p. fst p \<noteq> range_value_omitted env \<or> snd p \<noteq> range_value_omitted env)
                (ranges req))
      else [])"

text \<open>The header list \<^verbatim>\<open>SendRequestIfNeeded\<close> hands to \<^verbatim>\<open>CreateConnection\<close>.\<close>

definition request_headers :: "('t, 'c, 'e) http_env \<Rightarrow> ('t, 'c) Request \<Rightarrow> HeaderList" where
  "request_headers env req =
     MapToVector env (headers req)
       @ (if range_list env req \<noteq> []
          then [(request_header_kRange, ''bytes='' @ Join env (CHR '','') (range_list env req))]
          else [])
       @ [(request_header_kAccept, GetAccept req)]
       @ (if method req \<noteq> request_type_kGet \<and> method req \<noteq> request_type_kHead
             \<and> content_type req \<noteq> []
          then [(request_header_kContentType, content_type req)]
          else [])"

definition SendRequestIfNeeded ::
  "('t, 'c, 'e) http_env \<Rightarrow> ('t, 'c) Request \<Rightarrow> 'e \<Rightarrow> bool \<times> ('t, 'c) Request \<times> 'e" where
  "SendRequestIfNeeded env req err =
     (case transport req of
        Some t \<Rightarrow>
          (case connection req of
             None \<Rightarrow>
               (case CreateConnection env t (request_url req) (method req)
                       (request_headers env req) (user_agent req) (referer req) err of
                  (c, err') \<Rightarrow> (c \<noteq> None, req\<lparr>connection := c\<rparr>, err'))
           | Some c \<Rightarrow> (True, req, err))
      | None \<Rightarrow>
          (False, req,
           Error_AddTo env err (kErrorDomain env) ''response_already_received''
             ''HTTP response already received''))"

definition AddRequestBody ::
  "('t, 'c, 'e) http_env \<Rightarrow> ('t, 'c) Request \<Rightarrow> byte list \<Rightarrow> 'e
     \<Rightarrow> fault + bool \<times> ('t, 'c) Request \<times> 'e" where
  "AddRequestBody env req bytes err =
     (case SendRequestIfNeeded env req err of
        (sent, req1, err1) \<Rightarrow>
          if \<not> sent then Inr (False, req1, err1)
          else (case connection req1 of
                  None \<Rightarrow> Inl NullDereference
                | Some c \<Rightarrow>
                    (case WriteRequestData env c bytes err1 of
                       (ok, c', err2) \<Rightarrow> Inr (ok, req1\<lparr>connection := Some c'\<rparr>, err2))))"

text \<open>
  The loop of the \<^verbatim>\<open>Response\<close> constructor, which reads the body 1024 bytes at a
  time until a read fails or returns nothing. A connection that never stops returning data
  keeps it running, so the result is an option and \<open>None\<close> is the loop that never ends.
  Before the loop the constructor asks the connection for the size of the data and reserves
  that much room in the vector, which changes no value the model holds.
\<close>

partial_function (option) read_response ::
  "('t, 'c, 'e) http_env \<Rightarrow> 'c \<Rightarrow> byte list \<Rightarrow> ('c \<times> byte list) option" where
  "read_response env c buf =
     (case ReadResponseData env c 1024 of
        (ok, chunk, c') \<Rightarrow>
          if ok \<and> length chunk > 0 then read_response env c' (buf @ chunk)
          else Some (c', buf))"

definition Response_ctor ::
  "('t, 'c, 'e) http_env \<Rightarrow> 'c option \<Rightarrow> 'c Response option" where
  "Response_ctor env conn =
     (case conn of
        None \<Rightarrow> Some \<lparr>response_connection = None, response_data = []\<rparr>
      | Some c \<Rightarrow>
          (case read_response env c [] of
             None \<Rightarrow> None
           | Some (c', buf) \<Rightarrow> Some \<lparr>response_connection = Some c', response_data = buf\<rparr>))"

text \<open>
  \<^verbatim>\<open>GetResponseAndBlock\<close>: the outer option is \<open>None\<close> when the constructor of the
  response never returns; the inner one is the \<^verbatim>\<open>unique_ptr<Response>\<close>, \<open>None\<close>
  for the null pointer.
\<close>

definition GetResponseAndBlock ::
  "('t, 'c, 'e) http_env \<Rightarrow> ('t, 'c) Request \<Rightarrow> 'e
     \<Rightarrow> (fault + 'c Response option \<times> ('t, 'c) Request \<times> 'e) option" where
  "GetResponseAndBlock env req err =
     (case SendRequestIfNeeded env req err of
        (sent, req1, err1) \<Rightarrow>
          if \<not> sent then Some (Inr (None, req1, err1))
          else (case connection req1 of
                  None \<Rightarrow> Some (Inl NullDereference)
                | Some c \<Rightarrow>
                    (case FinishRequest env c err1 of
                       (ok, c', err2) \<Rightarrow>
                         if \<not> ok then Some (Inr (None, req1\<lparr>connection := Some c'\<rparr>, err2))
                         else (case Response_ctor env (Some c') of
                                 None \<Rightarrow> None
                               | Some response \<Rightarrow>
                                   Some (Inr (Some response,
                                              req1\<lparr>connection := None, transport := None\<rparr>,
                                              err2))))))"

definition GetStatusCode :: "('t, 'c, 'e) http_env \<Rightarrow> 'c Response \<Rightarrow> int" where
  "GetStatusCode env response =
     (case response_connection response of
        None \<Rightarrow> - 1
      | Some c \<Rightarrow> GetResponseStatusCode env c)"

definition IsSuccessful :: "('t, 'c, 'e) http_env \<Rightarrow> 'c Response \<Rightarrow> bool" where
  "IsSuccessful env response =
     (let code = GetStatusCode env response
      in code \<ge> status_code_Continue \<and> code < status_code_BadRequest)"

text \<open>
  A transport for concrete runs: connections are numbered, a connection answers the first
  two reads with one byte each and then reports the end of the data, and an error value is
  the list of the domains and codes of the errors reported so far.
\<close>

definition demo_env :: "(unit, nat, (string \<times> string) list) http_env" where
  "demo_env =
     \<lparr>CreateConnection = (\<lambda>t url m hs ua rf e. (Some 0, e)),
      FinishRequest = (\<lambda>c e. (True, c, e)),
      WriteRequestData = (\<lambda>c bytes e. (True, c, e)),
      ReadResponseData = (\<lambda>c size. (c < 2, [of_nat c], c + 1)),
      GetResponseStatusCode = (\<lambda>c. 200),
      Error_AddTo = (\<lambda>e d code msg. (d, code) # e),
      kErrorDomain = ''http'',
      range_value_omitted = - 1,
      ToString = (\<lambda>w. []),
      Join = (\<lambda>sep xs. concat xs),
      MapToVector = (\<lambda>m. [])\<rparr>"

definition demo_request :: "(unit, nat) Request" where
  "demo_request =
     \<lparr>transport = Some (), connection = None, request_url = ''http://localhost/'',
      method = ''GET'', referer = [], user_agent = [], accept = ''*/*'', content_type = [],
      headers = Map.empty, ranges = []\<rparr>"

definition demo_received :: "(unit, nat) Request" where
  "demo_received = demo_request\<lparr>connection := None, transport := None\<rparr>"

section \<open>Properties of the HTTP layer\<close>

lemma SendRequestIfNeeded_no_transport:
  "transport req = None \<Longrightarrow>
     SendRequestIfNeeded env req e =
       (False, req,
        Error_AddTo env e (kErrorDomain env) ''response_already_received''
          ''HTTP response already received'')"
  by (simp add: SendRequestIfNeeded_def)

lemma SendRequestIfNeeded_sent_connection:
  "SendRequestIfNeeded env req e = (True, req1, e1) \<Longrightarrow> connection req1 \<noteq> None"
  by (auto simp: SendRequestIfNeeded_def split: option.splits prod.splits)

text \<open>The null dereference the model provides for never happens: a request is sent only
  with a connection in place.\<close>

lemma AddRequestBody_no_fault: "AddRequestBody env req bytes e \<noteq> Inl NullDereference"
  by (auto simp: AddRequestBody_def SendRequestIfNeeded_def split: option.splits prod.splits)

lemma GetResponseAndBlock_no_fault:
  "GetResponseAndBlock env req e \<noteq> Some (Inl NullDereference)"
  by (auto simp: GetResponseAndBlock_def SendRequestIfNeeded_def split: option.splits prod.splits)

lemma GetResponseAndBlock_response_clears:
  "GetResponseAndBlock env req err = Some (Inr (Some response, req', err')) \<Longrightarrow>
     transport req' = None \<and> connection req' = None"
  by (auto simp: GetResponseAndBlock_def split: prod.splits if_splits option.splits)

text \<open>
  Claim C9. Once \<^verbatim>\<open>GetResponseAndBlock\<close> has returned a response, the request holds
  neither a transport nor a connection. From then on \<^verbatim>\<open>GetResponseAndBlock\<close> returns
  the null pointer and \<^verbatim>\<open>AddRequestBody\<close> returns false, whatever error pointer and
  data they are given; each reports the error \<open>response_already_received\<close> in the domain
  \<^verbatim>\<open>http::kErrorDomain\<close> through \<^verbatim>\<open>Error::AddTo\<close>; and each leaves the request as it
  was. The request stays without a connection, so no method of a connection is called, and
  since the request does not change, the same holds for every later call.
\<close>

theorem Request_fails_after_response:
  assumes "GetResponseAndBlock env req err = Some (Inr (Some response, req', err'))"
  shows "transport req' = None
     \<and> connection req' = None
     \<and> GetResponseAndBlock env req' e =
         Some (Inr (None, req',
           Error_AddTo env e (kErrorDomain env) ''response_already_received''
             ''HTTP response already received''))
     \<and> AddRequestBody env req' bytes e =
         Inr (False, req',
           Error_AddTo env e (kErrorDomain env) ''response_already_received''
             ''HTTP response already received'')"
proof -
  from GetResponseAndBlock_response_clears [OF assms]
  have t: "transport req' = None" and c: "connection req' = None"
    by simp_all
  from t show ?thesis
    by (simp add: c GetResponseAndBlock_def AddRequestBody_def SendRequestIfNeeded_no_transport)
qed

lemma demo_read: "read_response demo_env 0 [] = Some (3, [0, 1])"
  by (simp add: read_response.simps demo_env_def)

lemma demo_run:
  "GetResponseAndBlock demo_env demo_request [] =
     Some (Inr (Some \<lparr>response_connection = Some 3, response_data = [0, 1]\<rparr>, demo_received, []))"
proof -
  have send: "SendRequestIfNeeded demo_env demo_request [] =
      (True, demo_request\<lparr>connection := Some 0\<rparr>, [])"
    by (simp add: SendRequestIfNeeded_def demo_env_def demo_request_def)
  have fin: "FinishRequest demo_env 0 [] = (True, 0, [])"
    by (simp add: demo_env_def)
  have ctor: "Response_ctor demo_env (Some 0) =
      Some \<lparr>response_connection = Some 3, response_data = [0, 1]\<rparr>"
    by (simp add: Response_ctor_def demo_read)
  show ?thesis
    by (simp add: GetResponseAndBlock_def send fin ctor demo_received_def)
qed

text \<open>The demonstration request receives its two-byte response; a second request for the
  response and a request to add a body then both fail with the error on top of the
  caller's error list.\<close>

theorem Request_fails_after_response_witness:
  "GetResponseAndBlock demo_env demo_request [] =
     Some (Inr (Some \<lparr>response_connection = Some 3, response_data = [0, 1]\<rparr>, demo_received, []))
   \<and> transport demo_received = None
   \<and> GetResponseAndBlock demo_env demo_received [(''http'', ''earlier'')] =
       Some (Inr (None, demo_received,
         [(''http'', ''response_already_received''), (''http'', ''earlier'')]))
   \<and> AddRequestBody demo_env demo_received [1, 2, 3] [] =
       Inr (False, demo_received, [(''http'', ''response_already_received'')])"
  using Request_fails_after_response [OF demo_run, of "[(''http'', ''earlier'')]" "[1, 2, 3]"]
    Request_fails_after_response [OF demo_run, of "[]" "[1, 2, 3]"] demo_run
  by (simp add: demo_env_def)

text \<open>
  Claim C10. \<^verbatim>\<open>Response::IsSuccessful\<close> is true exactly when the status code is at
  least 100 and below 400. The constructor given no connection returns a response whose
  status code is \<open>-1\<close> and which is not successful.
\<close>

theorem IsSuccessful_status_range:
  "(IsSuccessful env response \<longleftrightarrow>
      100 \<le> GetStatusCode env response \<and> GetStatusCode env response < 400)
   \<and> (\<exists>r. Response_ctor env None = Some r \<and> GetStatusCode env r = - 1 \<and> \<not> IsSuccessful env r)"
  by (simp add: IsSuccessful_def Let_def GetStatusCode_def Response_ctor_def
      status_code_Continue_def status_code_BadRequest_def)

text \<open>The response of the demonstration run has status 200 and is successful.\<close>

theorem IsSuccessful_status_range_witness:
  "IsSuccessful demo_env \<lparr>response_connection = Some 3, response_data = [0, 1]\<rparr>
   \<and> GetStatusCode demo_env \<lparr>response_connection = Some 3, response_data = [0, 1]\<rparr> = 200"
  using IsSuccessful_status_range
    [of demo_env "\<lparr>response_connection = Some 3, response_data = [0, 1]\<rparr>"]
  by (simp add: GetStatusCode_def demo_env_def)

end
